theory Spec2Isabelle
  imports Main "HOL-Library.Char_ord" "HOL-Library.List_Lexorder"
begin

section \<open>The session/profile store of the injury tracking application\<close>

text \<open>
  This theory embeds the authentication context of \<^verbatim>\<open>lib/auth-context.tsx\<close> (the second
  module in \<^verbatim>\<open>src/lib/supabase.ts\<close>): the React state of \<^verbatim>\<open>AuthProvider\<close> and the
  operations \<^verbatim>\<open>loadDepartments\<close>, \<^verbatim>\<open>fetchUserProfile\<close>, \<^verbatim>\<open>refreshUser\<close>, \<^verbatim>\<open>login\<close>,
  \<^verbatim>\<open>completeEmployeeProfile\<close>, \<^verbatim>\<open>logout\<close>, \<^verbatim>\<open>initializeAuth\<close> and the
  \<^verbatim>\<open>onAuthStateChange\<close> callback.

  Every operation is an \<^verbatim>\<open>async\<close> function. It is modelled as a function from the world
  before the call to its result and the world after it, run to completion without
  interleaving. The world is the remote backend, the React state and the alerts shown to
  the user. Console output is not modelled.
\<close>

subsection \<open>Data\<close>

text \<open>
  An error object: the \<^verbatim>\<open>code\<close> and \<^verbatim>\<open>message\<close> the source reads from errors returned
  by the client, and from exceptions it catches.
\<close>

datatype js_error = Error (code: string) (message: string)

text \<open>
  The outcome of awaiting a promise: \<^verbatim>\<open>await\<close> throws when the promise is rejected and
  yields the value otherwise.
\<close>

datatype 'a promise = Rejected js_error | Fulfilled 'a

text \<open>The \<^verbatim>\<open>{ data, error }\<close> object a table query resolves to.\<close>

record 'a PostgrestResponse =
  data :: "'a option"
  error :: "js_error option"

text \<open>
  \<^verbatim>\<open>User\<close> and \<^verbatim>\<open>Session\<close> of the client library, with the fields the application
  reads. The source's \<^verbatim>\<open>id\<close> is \<open>uid\<close> here and the session's \<^verbatim>\<open>user\<close> is
  \<open>session_user\<close>. In the library's type a session always carries its user, so the tests
  \<^verbatim>\<open>currentSession?.user\<close> and \<^verbatim>\<open>newSession?.user\<close> succeed exactly when the session
  is present.
\<close>

record User =
  uid :: string
  user_email :: string

record Session =
  access_token :: string
  refresh_token :: string
  expires_at :: nat
  session_user :: User

text \<open>
  \<^verbatim>\<open>interface Department\<close> (\<^verbatim>\<open>id\<close>, \<^verbatim>\<open>name\<close>) and \<^verbatim>\<open>interface UserProfile\<close>, which is
  also the shape of a row of the \<^verbatim>\<open>employees\<close> table. Columns that the table or the
  insert of \<^verbatim>\<open>completeEmployeeProfile\<close> leave \<^verbatim>\<open>null\<close> are options.
\<close>

record Department =
  dept_id :: string
  dept_name :: string

record UserProfile =
  profile_id :: string
  full_name :: string
  employee_number :: string
  position :: "string option"
  department_id :: "string option"
  department_name :: "string option"
  is_active :: bool
  created_at :: "string option"
  user_id :: "string option"
  phone_number :: "string option"
  company_name :: "string option"
  email :: "string option"

text \<open>The object \<^verbatim>\<open>signInWithPassword\<close> resolves to: \<^verbatim>\<open>{ data: { session, user }, error }\<close>.\<close>

record SignInResponse =
  data_session :: "Session option"
  data_user :: "User option"
  signin_error :: "js_error option"

text \<open>
  The object \<^verbatim>\<open>getSession\<close> resolves to: \<^verbatim>\<open>{ data: { session }, error }\<close>. The
  source's \<^verbatim>\<open>data.session\<close> is \<open>current_session\<close> here.
\<close>

record SessionResponse =
  current_session :: "Session option"
  session_error :: "js_error option"

text \<open>The events of the session-change subscription.\<close>

datatype AuthChangeEvent =
  INITIAL_SESSION | SIGNED_IN | SIGNED_OUT | TOKEN_REFRESHED | USER_UPDATED | PASSWORD_RECOVERY
  | MFA_CHALLENGE_VERIFIED

subsection \<open>The remote backend\<close>

text \<open>
  Modelled from the spec: the remote backend and its client library, which the sources
  call and do not contain (section 6 of the specification lists the requests; the SQL
  schema among the sources gives the tables). The state of the backend is the session the
  client persists, the two tables the store uses, and what the server generates for the
  next inserted row. How a request can fail is part of the state as well: a request
  answers, answers with an error object, or throws.
\<close>

datatype fault = NoFault | ErrorResult js_error | Exception js_error

record backend =
  auth_session :: "Session option"
  credentials :: "string \<Rightarrow> string \<Rightarrow> SignInResponse promise"
  employees :: "UserProfile list"
  departments_table :: "Department list"
  gen_random_uuid :: string
  now :: string
  getSession_fault :: fault
  signOut_fault :: fault
  departments_select_fault :: fault
  employees_select_fault :: fault
  employees_insert_fault :: fault

text \<open>
  \<^verbatim>\<open>supabase.auth.getSession()\<close>: the persisted session, or no session together with
  an error object when the client fails to produce it, or an exception.
\<close>

definition getSession :: "backend \<Rightarrow> SessionResponse promise" where
  "getSession b =
     (case getSession_fault b of
        Exception e \<Rightarrow> Rejected e
      | ErrorResult e \<Rightarrow> Fulfilled \<lparr>current_session = None, session_error = Some e\<rparr>
      | NoFault \<Rightarrow> Fulfilled \<lparr>current_session = auth_session b, session_error = None\<rparr>)"

text \<open>
  \<^verbatim>\<open>supabase.auth.signInWithPassword({ email, password })\<close>: the backend decides the
  answer from the credentials; a session it grants becomes the persisted session.
\<close>

definition signInWithPassword ::
  "backend \<Rightarrow> string \<Rightarrow> string \<Rightarrow> SignInResponse promise \<times> backend" where
  "signInWithPassword b mail password =
     (case credentials b mail password of
        Rejected e \<Rightarrow> (Rejected e, b)
      | Fulfilled r \<Rightarrow>
          (case (signin_error r, data_session r) of
             (None, Some s) \<Rightarrow> (Fulfilled r, b\<lparr>auth_session := Some s\<rparr>)
           | _ \<Rightarrow> (Fulfilled r, b)))"

text \<open>
  \<^verbatim>\<open>supabase.auth.signOut()\<close> resolves to \<^verbatim>\<open>{ error }\<close>. Only a sign-out that succeeds
  removes the persisted session.
\<close>

definition signOut :: "backend \<Rightarrow> js_error option promise \<times> backend" where
  "signOut b =
     (case signOut_fault b of
        NoFault \<Rightarrow> (Fulfilled None, b\<lparr>auth_session := None\<rparr>)
      | ErrorResult e \<Rightarrow> (Fulfilled (Some e), b)
      | Exception e \<Rightarrow> (Rejected e, b))"

text \<open>
  \<^verbatim>\<open>.single()\<close>: the one row of the result, or the error \<^verbatim>\<open>PGRST116\<close> when the result
  has no row or several.
\<close>

definition single :: "'a list \<Rightarrow> 'a PostgrestResponse" where
  "single rows =
     (case rows of
        [r] \<Rightarrow> \<lparr>data = Some r, error = None\<rparr>
      | _ \<Rightarrow> \<lparr>data = None,
               error = Some (Error ''PGRST116'' ''JSON object requested, multiple (or no) rows returned'')\<rparr>)"

text \<open>
  \<^verbatim>\<open>.from(table).select(...).eq(...)...single()\<close>: the rows of the table that pass every
  \<^verbatim>\<open>eq\<close> filter, then \<^verbatim>\<open>single\<close>.
\<close>

definition select_single :: "fault \<Rightarrow> 'a list \<Rightarrow> ('a \<Rightarrow> bool) \<Rightarrow> 'a PostgrestResponse promise" where
  "select_single f rows eqs =
     (case f of
        Exception e \<Rightarrow> Rejected e
      | ErrorResult e \<Rightarrow> Fulfilled \<lparr>data = None, error = Some e\<rparr>
      | NoFault \<Rightarrow> Fulfilled (single (filter eqs rows)))"

text \<open>\<^verbatim>\<open>.from('departments').select('*').order('name')\<close>.\<close>

definition select_departments_ordered :: "backend \<Rightarrow> Department list PostgrestResponse promise" where
  "select_departments_ordered b =
     (case departments_select_fault b of
        Exception e \<Rightarrow> Rejected e
      | ErrorResult e \<Rightarrow> Fulfilled \<lparr>data = None, error = Some e\<rparr>
      | NoFault \<Rightarrow> Fulfilled \<lparr>data = Some (sort_key dept_name (departments_table b)), error = None\<rparr>)"

text \<open>
  \<^verbatim>\<open>.from('employees').insert(row)\<close> resolves to \<^verbatim>\<open>{ error }\<close>. The server fills in the
  row's \<^verbatim>\<open>id\<close> and \<^verbatim>\<open>created_at\<close>; the table's \<^verbatim>\<open>employee_number text UNIQUE\<close>
  constraint rejects a number that is already there.
\<close>

definition insert_employee :: "backend \<Rightarrow> UserProfile \<Rightarrow> js_error option promise \<times> backend" where
  "insert_employee b row =
     (case employees_insert_fault b of
        Exception e \<Rightarrow> (Rejected e, b)
      | ErrorResult e \<Rightarrow> (Fulfilled (Some e), b)
      | NoFault \<Rightarrow>
          (if employee_number row \<in> set (map employee_number (employees b))
           then (Fulfilled (Some (Error ''23505'' ''duplicate key value violates unique constraint'')), b)
           else (Fulfilled None,
                 b\<lparr>employees := employees b @
                      [row\<lparr>profile_id := gen_random_uuid b, created_at := Some (now b)\<rparr>]\<rparr>)))"

subsection \<open>The store\<close>

text \<open>The \<^verbatim>\<open>useState\<close> cells of \<^verbatim>\<open>AuthProvider\<close>, with their initial values.\<close>

record AuthState =
  user :: "UserProfile option"
  session :: "Session option"
  departments :: "Department list"
  isLoading :: bool
  isSigningUp :: bool
  isLoggingIn :: bool

definition initial_state :: AuthState where
  "initial_state =
     \<lparr>user = None, session = None, departments = [], isLoading = True,
      isSigningUp = False, isLoggingIn = False\<rparr>"

text \<open>The world: the backend, the store, and the alerts shown so far (title, message).\<close>

record world =
  backend :: backend
  store :: AuthState
  alerts :: "(string \<times> string) list"

definition setUser :: "UserProfile option \<Rightarrow> world \<Rightarrow> world" where
  "setUser u w = w\<lparr>store := (store w)\<lparr>user := u\<rparr>\<rparr>"

definition setSession :: "Session option \<Rightarrow> world \<Rightarrow> world" where
  "setSession s w = w\<lparr>store := (store w)\<lparr>session := s\<rparr>\<rparr>"

definition setDepartments :: "Department list \<Rightarrow> world \<Rightarrow> world" where
  "setDepartments ds w = w\<lparr>store := (store w)\<lparr>departments := ds\<rparr>\<rparr>"

definition setIsLoading :: "bool \<Rightarrow> world \<Rightarrow> world" where
  "setIsLoading v w = w\<lparr>store := (store w)\<lparr>isLoading := v\<rparr>\<rparr>"

definition setIsLoggingIn :: "bool \<Rightarrow> world \<Rightarrow> world" where
  "setIsLoggingIn v w = w\<lparr>store := (store w)\<lparr>isLoggingIn := v\<rparr>\<rparr>"

definition alert :: "string \<Rightarrow> string \<Rightarrow> world \<Rightarrow> world" where
  "alert title msg w = w\<lparr>alerts := alerts w @ [(title, msg)]\<rparr>"

subsection \<open>String normalisation\<close>

text \<open>
  A string is a list of characters with code points below 256. On these,
  \<^verbatim>\<open>toLowerCase\<close> lowers the letters A to Z and the capital letters from U+00C0 to
  U+00DE (U+00D7, the multiplication sign, is no letter), each by adding 32, and
  \<^verbatim>\<open>trim\<close> removes at both ends the white space and line terminators of the language:
  tab, line feed, vertical tab, form feed, carriage return, space and the no-break space
  U+00A0.
\<close>

definition toLowerCase :: "string \<Rightarrow> string" where
  "toLowerCase s =
     map (\<lambda>c. let n = (of_char c :: nat)
              in if (65 \<le> n \<and> n \<le> 90) \<or> (192 \<le> n \<and> n \<le> 222 \<and> n \<noteq> 215)
                 then char_of (n + 32) else c) s"

definition isWhiteSpace :: "char \<Rightarrow> bool" where
  "isWhiteSpace c = ((of_char c :: nat) \<in> set [9, 10, 11, 12, 13, 32, 160])"

definition trim :: "string \<Rightarrow> string" where
  "trim s = rev (dropWhile isWhiteSpace (rev (dropWhile isWhiteSpace s)))"

subsection \<open>Operations\<close>

text \<open>
  \<^verbatim>\<open>loadDepartments\<close>: an error result is thrown and, like an exception of the query,
  caught and logged.
\<close>

definition loadDepartments :: "world \<Rightarrow> world" where
  "loadDepartments w =
     (case select_departments_ordered (backend w) of
        Rejected e \<Rightarrow> w
      | Fulfilled r \<Rightarrow>
          (case error r of
             Some e \<Rightarrow> w
           | None \<Rightarrow> (case data r of Some ds \<Rightarrow> setDepartments ds w | None \<Rightarrow> w)))"

text \<open>
  \<^verbatim>\<open>fetchUserProfile\<close>: the query keeps the rows of the user whose \<^verbatim>\<open>is_active\<close> is
  true. Every failure yields \<^verbatim>\<open>null\<close>.
\<close>

definition fetchUserProfile :: "backend \<Rightarrow> string \<Rightarrow> UserProfile option" where
  "fetchUserProfile b userId =
     (case select_single (employees_select_fault b) (employees b)
             (\<lambda>r. user_id r = Some userId \<and> is_active r = True) of
        Rejected e \<Rightarrow> None
      | Fulfilled r \<Rightarrow>
          (case error r of
             Some e \<Rightarrow> (if code e = ''PGRST116'' then None else None)
           | None \<Rightarrow> data r))"

text \<open>
  \<^verbatim>\<open>refreshUser\<close>: \<open>Inl e\<close> is the exception \<open>e\<close> rethrown to the caller. Of the
  result of \<^verbatim>\<open>getSession\<close> it reads \<^verbatim>\<open>data.session\<close> and nothing else. Its query has
  the one filter on \<^verbatim>\<open>user_id\<close>.
\<close>

definition refreshUser :: "world \<Rightarrow> (js_error + unit) \<times> world" where
  "refreshUser w =
     (case getSession (backend w) of
        Rejected e \<Rightarrow> (Inl e, w)
      | Fulfilled resp \<Rightarrow>
          (case current_session resp of
             Some cs \<Rightarrow>
               (case select_single (employees_select_fault (backend w)) (employees (backend w))
                       (\<lambda>r. user_id r = Some (uid (session_user cs))) of
                  Rejected e \<Rightarrow> (Inl e, w)
                | Fulfilled r \<Rightarrow>
                    (case error r of
                       Some e \<Rightarrow> (Inl e, w)
                     | None \<Rightarrow> (Inr (), setSession (Some cs) (setUser (data r) w))))
           | None \<Rightarrow> (Inr (), setSession None (setUser None w))))"

text \<open>
  \<^verbatim>\<open>login\<close>: the \<^verbatim>\<open>finally\<close> block runs on every path. An exception of
  \<^verbatim>\<open>signInWithPassword\<close> or of \<^verbatim>\<open>signOut\<close> reaches the \<^verbatim>\<open>catch\<close> block.
\<close>

definition login :: "string \<Rightarrow> string \<Rightarrow> world \<Rightarrow> bool \<times> world" where
  "login mail password w0 =
     (let w = setIsLoggingIn True w0;
          (resp, b) = signInWithPassword (backend w) (trim (toLowerCase mail)) password;
          w = w\<lparr>backend := b\<rparr>;
          (result, w) =
            (case resp of
               Rejected e \<Rightarrow> (False, alert ''Login Failed'' (message e) w)
             | Fulfilled r \<Rightarrow>
                 (case signin_error r of
                    Some e \<Rightarrow> (False, alert ''Login Failed'' (message e) w)
                  | None \<Rightarrow>
                      (case (data_session r, data_user r) of
                         (Some s, Some u) \<Rightarrow>
                           (case fetchUserProfile (backend w) (uid u) of
                              None \<Rightarrow> (True, setSession (Some s) w)
                            | Some userProfile \<Rightarrow>
                                (if \<not> is_active userProfile
                                 then (case signOut (backend w) of
                                         (Rejected e, b') \<Rightarrow>
                                           (False, alert ''Login Failed'' (message e) (w\<lparr>backend := b'\<rparr>))
                                       | (Fulfilled _, b') \<Rightarrow>
                                           (False, alert ''Account Disabled'' ''Your account has been disabled.''
                                                     (w\<lparr>backend := b'\<rparr>)))
                                 else (True, setUser (Some userProfile) (setSession (Some s) w))))
                       | _ \<Rightarrow> (False, alert ''Login Failed'' ''No session or user data returned'' w))))
      in (result, setIsLoggingIn False w))"

text \<open>
  \<^verbatim>\<open>completeEmployeeProfile\<close>. An optional argument is an option; \<^verbatim>\<open>x || d\<close> yields
  \<^verbatim>\<open>d\<close> when \<^verbatim>\<open>x\<close> is missing or the empty string.
\<close>

definition or_null :: "string option \<Rightarrow> string option" where
  "or_null x = (case x of None \<Rightarrow> None | Some s \<Rightarrow> (if s = [] then None else Some s))"

definition or_default :: "string option \<Rightarrow> string \<Rightarrow> string" where
  "or_default x d = (case or_null x of None \<Rightarrow> d | Some s \<Rightarrow> s)"

definition new_employee ::
  "string \<Rightarrow> string \<Rightarrow> string \<Rightarrow> string \<Rightarrow> string \<Rightarrow> string option \<Rightarrow> string option \<Rightarrow>
   string option \<Rightarrow> string option \<Rightarrow> UserProfile" where
  "new_employee userId fullName employeeNumber departmentId departmentName phoneNumber
     companyName position' email' =
     \<lparr>profile_id = [], full_name = fullName, employee_number = employeeNumber,
      position = Some (or_default position' ''Employee''),
      department_id = Some departmentId, department_name = Some departmentName,
      is_active = True, created_at = None, user_id = Some userId,
      phone_number = or_null phoneNumber, company_name = or_null companyName,
      email = or_null email'\<rparr>"

definition completeEmployeeProfile ::
  "string \<Rightarrow> string \<Rightarrow> string \<Rightarrow> string \<Rightarrow> string option \<Rightarrow> string option \<Rightarrow>
   string option \<Rightarrow> string option \<Rightarrow> world \<Rightarrow> bool \<times> world" where
  "completeEmployeeProfile userId fullName employeeNumber departmentName phoneNumber
     companyName position' email' w =
     (case select_single (departments_select_fault (backend w)) (departments_table (backend w))
             (\<lambda>d. dept_name d = departmentName) of
        Rejected e \<Rightarrow> (False, w)
      | Fulfilled r \<Rightarrow>
          (case (error r, data r) of
             (None, Some departmentData) \<Rightarrow>
               (case insert_employee (backend w)
                       (new_employee userId fullName employeeNumber (dept_id departmentData)
                          departmentName phoneNumber companyName position' email') of
                  (Rejected e, b) \<Rightarrow> (False, w\<lparr>backend := b\<rparr>)
                | (Fulfilled (Some e), b) \<Rightarrow> (False, w\<lparr>backend := b\<rparr>)
                | (Fulfilled None, b) \<Rightarrow>
                    (case fetchUserProfile b userId of
                       Some userProfile \<Rightarrow> (True, setUser (Some userProfile) (w\<lparr>backend := b\<rparr>))
                     | None \<Rightarrow> (True, w\<lparr>backend := b\<rparr>)))
           | _ \<Rightarrow> (False, w)))"

text \<open>
  \<^verbatim>\<open>logout\<close>: the result of \<^verbatim>\<open>signOut\<close> is not inspected; an exception skips the two
  setters and shows an alert.
\<close>

definition logout :: "world \<Rightarrow> world" where
  "logout w =
     (case signOut (backend w) of
        (Rejected e, b) \<Rightarrow> alert ''Logout Failed'' (message e) (w\<lparr>backend := b\<rparr>)
      | (Fulfilled _, b) \<Rightarrow> setUser None (setSession None (w\<lparr>backend := b\<rparr>)))"

text \<open>\<^verbatim>\<open>initializeAuth\<close>, the function the mount effect runs.\<close>

definition initializeAuth :: "world \<Rightarrow> world" where
  "initializeAuth w0 =
     (let w = loadDepartments w0;
          w = (case getSession (backend w) of
                 Rejected e \<Rightarrow> w
               | Fulfilled resp \<Rightarrow>
                   (case current_session resp of
                      Some cs \<Rightarrow>
                        (case fetchUserProfile (backend w) (uid (session_user cs)) of
                           Some userProfile \<Rightarrow> setUser (Some userProfile) (setSession (Some cs) w)
                         | None \<Rightarrow> setUser None (setSession (Some cs) w))
                    | None \<Rightarrow> w))
      in setIsLoading False w)"

text \<open>The callback registered with \<^verbatim>\<open>supabase.auth.onAuthStateChange\<close>.\<close>

definition onAuthStateChange :: "AuthChangeEvent \<Rightarrow> Session option \<Rightarrow> world \<Rightarrow> world" where
  "onAuthStateChange event newSession w =
     (if event = SIGNED_IN \<and> newSession \<noteq> None then
        (case newSession of
           Some ns \<Rightarrow>
             (case fetchUserProfile (backend w) (uid (session_user ns)) of
                Some userProfile \<Rightarrow> setUser (Some userProfile) (setSession newSession w)
              | None \<Rightarrow> setUser None (setSession newSession w))
         | None \<Rightarrow> w)
      else if event = SIGNED_OUT then setUser None (setSession None w)
      else if event = TOKEN_REFRESHED \<and> newSession \<noteq> None then setSession newSession w
      else w)"

subsection \<open>Example worlds\<close>

text \<open>
  A user with an account, her session, her profile row, and a backend that answers every
  request: it knows her credentials, has one department and no employee row yet.
\<close>

definition alice :: User where
  "alice = \<lparr>uid = ''u1'', user_email = ''alice@example.com''\<rparr>"

definition alice_session :: Session where
  "alice_session =
     \<lparr>access_token = ''at1'', refresh_token = ''rt1'', expires_at = 3600, session_user = alice\<rparr>"

definition alice_session_renewed :: Session where
  "alice_session_renewed =
     \<lparr>access_token = ''at2'', refresh_token = ''rt2'', expires_at = 7200, session_user = alice\<rparr>"

definition alice_profile :: UserProfile where
  "alice_profile =
     \<lparr>profile_id = ''e1'', full_name = ''Alice'', employee_number = ''E-001'',
      position = Some ''Employee'', department_id = Some ''d1'',
      department_name = Some ''Warehouse'', is_active = True, created_at = Some ''2024-01-01'',
      user_id = Some ''u1'', phone_number = None, company_name = None,
      email = Some ''alice@example.com''\<rparr>"

definition offline :: js_error where
  "offline = Error ''NETWORK'' ''Network request failed''"

definition server :: backend where
  "server =
     \<lparr>auth_session = None,
      credentials = (\<lambda>m p.
         if m = ''alice@example.com'' \<and> p = ''secret''
         then Fulfilled \<lparr>data_session = Some alice_session, data_user = Some alice,
                          signin_error = None\<rparr>
         else Fulfilled \<lparr>data_session = None, data_user = None,
                          signin_error = Some (Error ''invalid_credentials'' ''Invalid login credentials'')\<rparr>),
      employees = [],
      departments_table = [\<lparr>dept_id = ''d1'', dept_name = ''Warehouse''\<rparr>],
      gen_random_uuid = ''e2'', now = ''2024-02-02'',
      getSession_fault = NoFault, signOut_fault = NoFault, departments_select_fault = NoFault,
      employees_select_fault = NoFault, employees_insert_fault = NoFault\<rparr>"

text \<open>The application just mounted, and the application showing Alice signed in.\<close>

definition mounted :: "backend \<Rightarrow> world" where
  "mounted b = \<lparr>backend = b, store = initial_state, alerts = []\<rparr>"

definition signed_in :: "backend \<Rightarrow> world" where
  "signed_in b =
     \<lparr>backend = b,
      store = initial_state\<lparr>user := Some alice_profile, session := Some alice_session,
                isLoading := False\<rparr>,
      alerts = []\<rparr>"

text \<open>Alice signed in but not onboarded: a session in the store and no profile.\<close>

definition onboarding :: "backend \<Rightarrow> world" where
  "onboarding b =
     \<lparr>backend = b,
      store = initial_state\<lparr>session := Some alice_session, isLoading := False\<rparr>,
      alerts = []\<rparr>"

text \<open>Alice's profile row after an administrator has deactivated it.\<close>

definition alice_deactivated :: UserProfile where
  "alice_deactivated = alice_profile\<lparr>is_active := False\<rparr>"

text \<open>The row the server creates when Alice completes her profile on \<open>server\<close>.\<close>

definition alice_new_row :: UserProfile where
  "alice_new_row =
     \<lparr>profile_id = ''e2'', full_name = ''Alice'', employee_number = ''E-001'',
      position = Some ''Employee'', department_id = Some ''d1'',
      department_name = Some ''Warehouse'', is_active = True, created_at = Some ''2024-02-02'',
      user_id = Some ''u1'', phone_number = None, company_name = None,
      email = Some ''alice@example.com''\<rparr>"

section \<open>Properties\<close>

subsection \<open>Facts about the helpers\<close>

lemma loadDepartments_backend: "backend (loadDepartments w) = backend w"
  by (simp add: loadDepartments_def setDepartments_def split: promise.splits option.splits)

lemma initializeAuth_unfold:
  "initializeAuth w = setIsLoading False
     (case getSession (backend w) of
        Rejected e \<Rightarrow> loadDepartments w
      | Fulfilled resp \<Rightarrow>
          (case current_session resp of
             None \<Rightarrow> loadDepartments w
           | Some cs \<Rightarrow>
               setUser (fetchUserProfile (backend w) (uid (session_user cs)))
                 (setSession (Some cs) (loadDepartments w))))"
  by (simp add: initializeAuth_def Let_def loadDepartments_backend
        split: promise.splits option.splits)

lemma single_data_Some: "data (single rows) = Some r \<longleftrightarrow> rows = [r]"
  by (cases rows; cases "tl rows") (auto simp: single_def split: list.splits)

lemma filter_singleton_holds: "filter P xs = [r] \<Longrightarrow> P r"
proof -
  assume "filter P xs = [r]"
  then have "r \<in> set (filter P xs)" by simp
  then show "P r" by simp
qed

text \<open>
  The profile that \<open>fetchUserProfile\<close> yields is active: its query keeps active rows
  only. A user all of whose rows are deactivated has no profile for it.
\<close>

lemma fetchUserProfile_active:
  "fetchUserProfile b userId = Some p \<Longrightarrow> is_active p \<and> user_id p = Some userId"
  by (auto simp: fetchUserProfile_def select_single_def single_data_Some
        split: fault.splits option.splits dest: filter_singleton_holds)

lemma fetchUserProfile_no_active_row:
  "filter (\<lambda>r. user_id r = Some userId \<and> is_active r) (employees b) = [] \<Longrightarrow>
   fetchUserProfile b userId = None"
  by (simp add: fetchUserProfile_def select_single_def single_def split: fault.splits)

lemma fetchUserProfile_deactivated:
  assumes "filter (\<lambda>p. user_id p = Some userId) (employees b) = [p]" and "is_active p = False"
  shows "fetchUserProfile b userId = None"
proof -
  have "filter (\<lambda>r. is_active r) (filter (\<lambda>p. user_id p = Some userId) (employees b)) = []"
    using assms by simp
  then have "filter (\<lambda>r. user_id r = Some userId \<and> is_active r) (employees b) = []"
    by (simp add: conj_commute)
  then show ?thesis by (rule fetchUserProfile_no_active_row)
qed

lemma fetchUserProfile_absent:
  assumes "Some userId \<notin> set (map user_id (employees b))"
  shows "fetchUserProfile b userId = None"
proof -
  have "filter (\<lambda>r. user_id r = Some userId \<and> is_active r) (employees b) = []"
    using assms by (fastforce simp: filter_empty_conv image_iff)
  then show ?thesis by (rule fetchUserProfile_no_active_row)
qed

lemma fetchUserProfile_auth_session:
  "fetchUserProfile (b\<lparr>auth_session := x\<rparr>) userId = fetchUserProfile b userId"
  by (simp add: fetchUserProfile_def)

text \<open>What \<open>login\<close> does when the sign-in succeeds and the profile fetch yields nothing.\<close>

lemma login_profile_not_found:
  assumes "credentials (backend w) (trim (toLowerCase mail)) password = Fulfilled r"
    and "signin_error r = None" and "data_session r = Some s" and "data_user r = Some u"
    and "fetchUserProfile (backend w) (uid u) = None"
  shows "login mail password w =
    (True, w\<lparr>backend := (backend w)\<lparr>auth_session := Some s\<rparr>,
             store := (store w)\<lparr>session := Some s, isLoggingIn := False\<rparr>\<rparr>)"
  using assms
  by (simp add: login_def signInWithPassword_def setIsLoggingIn_def setSession_def
        fetchUserProfile_auth_session Let_def)

subsection \<open>The token-refreshed event\<close>

text \<open>
  Claim C8. For every token-refreshed event that the session-change subscription delivers
  with a new session, the stored session becomes the new session and the stored profile is
  left as it was. Nothing else of the world changes either.
\<close>

theorem token_refreshed_updates_session_only:
  "onAuthStateChange TOKEN_REFRESHED (Some newSession) w =
     w\<lparr>store := (store w)\<lparr>session := Some newSession\<rparr>\<rparr>
   \<and> session (store (onAuthStateChange TOKEN_REFRESHED (Some newSession) w)) = Some newSession
   \<and> user (store (onAuthStateChange TOKEN_REFRESHED (Some newSession) w)) = user (store w)"
  by (simp add: onAuthStateChange_def setSession_def)

theorem token_refreshed_updates_session_only_witness:
  "session (store (onAuthStateChange TOKEN_REFRESHED (Some alice_session_renewed)
      (signed_in (server\<lparr>auth_session := Some alice_session_renewed\<rparr>)))) = Some alice_session_renewed
   \<and> user (store (onAuthStateChange TOKEN_REFRESHED (Some alice_session_renewed)
      (signed_in (server\<lparr>auth_session := Some alice_session_renewed\<rparr>)))) = Some alice_profile"
  using token_refreshed_updates_session_only
    [of alice_session_renewed "signed_in (server\<lparr>auth_session := Some alice_session_renewed\<rparr>)"]
  by (simp add: signed_in_def)

subsection \<open>Initialisation\<close>

text \<open>
  Claim C9. Initialisation reads the backend and never writes to it, so a second call
  meets the backend the first call met. Calling \<open>initializeAuth\<close> twice in sequence
  yields the world that calling it once yields: the same session, profile, departments and
  loading flag. The same holds when the store is reset to its initial values between the
  two calls, as a remount does.
\<close>

theorem initializeAuth_idempotent:
  "initializeAuth (initializeAuth w) = initializeAuth w
   \<and> backend (initializeAuth w) = backend w
   \<and> initializeAuth ((initializeAuth w)\<lparr>store := initial_state\<rparr>)
       = initializeAuth (w\<lparr>store := initial_state\<rparr>)"
proof -
  define f where "f = (\<lambda>ds::Department list.
    case select_departments_ordered (backend w) of
      Rejected e \<Rightarrow> ds
    | Fulfilled r \<Rightarrow>
        (case error r of
           Some e \<Rightarrow> ds
         | None \<Rightarrow> (case data r of Some ds' \<Rightarrow> ds' | None \<Rightarrow> ds)))"
  define G where "G = (\<lambda>st::AuthState.
    case getSession (backend w) of
      Rejected e \<Rightarrow> st\<lparr>departments := f (departments st), isLoading := False\<rparr>
    | Fulfilled resp \<Rightarrow>
        (case current_session resp of
           None \<Rightarrow> st\<lparr>departments := f (departments st), isLoading := False\<rparr>
         | Some cs \<Rightarrow>
             st\<lparr>user := fetchUserProfile (backend w) (uid (session_user cs)),
                session := Some cs, departments := f (departments st), isLoading := False\<rparr>))"
  have ld: "loadDepartments w' =
      w'\<lparr>store := (store w')\<lparr>departments := f (departments (store w'))\<rparr>\<rparr>"
    if "backend w' = backend w" for w'
    using that
    by (simp add: f_def loadDepartments_def setDepartments_def
          split: promise.splits option.splits)
  have ff: "f (f x) = f x" for x
    by (simp add: f_def split: promise.splits option.splits)
  have u: "initializeAuth w' = w'\<lparr>store := G (store w')\<rparr>" if "backend w' = backend w" for w'
    using that
    by (simp add: initializeAuth_unfold ld G_def setIsLoading_def setUser_def setSession_def
          split: promise.splits option.splits)
  have GG: "G (G st) = G st" for st
    by (simp add: G_def ff split: promise.splits option.splits)
  have twice: "initializeAuth (initializeAuth w) = initializeAuth w"
    by (simp add: u GG)
  have reads: "backend (initializeAuth w) = backend w"
    by (simp add: u)
  have remount: "initializeAuth ((initializeAuth w)\<lparr>store := initial_state\<rparr>)
      = initializeAuth (w\<lparr>store := initial_state\<rparr>)"
    by (simp add: u)
  from twice reads remount show ?thesis by simp
qed

theorem initializeAuth_idempotent_witness:
  "initializeAuth (initializeAuth (mounted (server\<lparr>auth_session := Some alice_session,
      employees := [alice_profile]\<rparr>)))
   = initializeAuth (mounted (server\<lparr>auth_session := Some alice_session,
      employees := [alice_profile]\<rparr>))"
  using initializeAuth_idempotent
    [of "mounted (server\<lparr>auth_session := Some alice_session, employees := [alice_profile]\<rparr>)"]
  by simp

subsection \<open>Refresh\<close>

text \<open>
  What \<open>refreshUser\<close> does, by what the backend answers. An exception of
  \<open>getSession\<close>, an exception of the profile query and an error object the profile
  query answers with reach the caller (\<open>Inl\<close>), and the world is left as it was. When
  \<open>getSession\<close> answers without a session, the stored session and the stored profile
  are cleared, whatever they were; when it answers with a session and the profile query
  is answered, both are stored.
\<close>

lemma refreshUser_outcomes:
  "(getSession (backend w) = Rejected e \<longrightarrow> refreshUser w = (Inl e, w))
   \<and> (getSession (backend w) = Fulfilled resp \<and> current_session resp = None \<longrightarrow>
        refreshUser w = (Inr (), w\<lparr>store := (store w)\<lparr>user := None, session := None\<rparr>\<rparr>))
   \<and> (getSession (backend w) = Fulfilled resp \<and> current_session resp = Some cs \<longrightarrow>
        (select_single (employees_select_fault (backend w)) (employees (backend w))
           (\<lambda>r. user_id r = Some (uid (session_user cs))) = Rejected e \<longrightarrow>
         refreshUser w = (Inl e, w))
      \<and> (select_single (employees_select_fault (backend w)) (employees (backend w))
           (\<lambda>r. user_id r = Some (uid (session_user cs))) = Fulfilled \<lparr>data = d, error = Some e\<rparr> \<longrightarrow>
         refreshUser w = (Inl e, w))
      \<and> (select_single (employees_select_fault (backend w)) (employees (backend w))
           (\<lambda>r. user_id r = Some (uid (session_user cs))) = Fulfilled \<lparr>data = d, error = None\<rparr> \<longrightarrow>
         refreshUser w = (Inr (), w\<lparr>store := (store w)\<lparr>user := d, session := Some cs\<rparr>\<rparr>)))"
  by (simp add: refreshUser_def setUser_def setSession_def)

text \<open>
  Claim C3 says that \<open>refreshUser\<close> propagates any backend error to the caller. It does
  so for the profile query (\<^verbatim>\<open>if (error) throw error\<close>) and for every exception, but
  not for \<open>getSession\<close>: the client can answer \<^verbatim>\<open>{ data: { session: null }, error }\<close>,
  and \<open>refreshUser\<close> reads \<^verbatim>\<open>data.session\<close> alone. Whenever \<open>getSession\<close> answers
  with an error object, \<open>refreshUser\<close> takes the answer for a missing session: it clears
  the stored session and the stored profile and returns normally, so the caller never
  sees the error.
\<close>

theorem refreshUser_swallows_getSession_error:
  assumes "getSession (backend w) = Fulfilled resp"
    and "current_session resp = None" and "session_error resp = Some e"
  shows "refreshUser w = (Inr (), w\<lparr>store := (store w)\<lparr>user := None, session := None\<rparr>\<rparr>)
    \<and> fst (refreshUser w) \<noteq> Inl e"
  using assms by (simp add: refreshUser_def setUser_def setSession_def)

theorem refreshUser_swallows_getSession_error_witness:
  "getSession (server\<lparr>auth_session := Some alice_session, getSession_fault := ErrorResult offline\<rparr>)
     = Fulfilled \<lparr>current_session = None, session_error = Some offline\<rparr>
   \<and> fst (refreshUser (signed_in (server\<lparr>auth_session := Some alice_session,
        getSession_fault := ErrorResult offline\<rparr>))) = Inr ()
   \<and> user (store (snd (refreshUser (signed_in (server\<lparr>auth_session := Some alice_session,
        getSession_fault := ErrorResult offline\<rparr>))))) = None
   \<and> session (store (snd (refreshUser (signed_in (server\<lparr>auth_session := Some alice_session,
        getSession_fault := ErrorResult offline\<rparr>))))) = None
   \<and> user (store (signed_in (server\<lparr>auth_session := Some alice_session,
        getSession_fault := ErrorResult offline\<rparr>))) = Some alice_profile"
proof -
  let ?b = "server\<lparr>auth_session := Some alice_session, getSession_fault := ErrorResult offline\<rparr>"
  let ?w = "signed_in ?b"
  let ?resp = "\<lparr>current_session = None, session_error = Some offline\<rparr>"
  have g: "getSession ?b = Fulfilled ?resp"
    by (simp add: getSession_def server_def)
  have h1: "getSession (backend ?w) = Fulfilled ?resp"
    using g by (simp add: signed_in_def)
  have h2: "current_session ?resp = None" and h3: "session_error ?resp = Some offline"
    by simp_all
  note t = refreshUser_swallows_getSession_error [OF h1 h2 h3, THEN conjunct1]
  have c: "fst (refreshUser ?w) = Inr ()
      \<and> user (store (snd (refreshUser ?w))) = None
      \<and> session (store (snd (refreshUser ?w))) = None"
    by (simp add: t)
  have u: "user (store ?w) = Some alice_profile"
    by (simp add: signed_in_def)
  from g c u show ?thesis by simp
qed

subsection \<open>Login\<close>

text \<open>
  Claim C5. A login with valid credentials (the backend grants a session and a user) for
  a user who has no row in the employees table returns success, stores the session, shows
  no alert and does not write the profile: the profile is left as it was, so an empty
  profile stays empty. This does not depend on whether the profile query can be
  answered.
\<close>

theorem login_without_profile_succeeds:
  assumes "credentials (backend w) (trim (toLowerCase mail)) password = Fulfilled r"
    and "signin_error r = None" and "data_session r = Some s" and "data_user r = Some u"
    and "Some (uid u) \<notin> set (map user_id (employees (backend w)))"
  shows "login mail password w =
      (True, w\<lparr>backend := (backend w)\<lparr>auth_session := Some s\<rparr>,
               store := (store w)\<lparr>session := Some s, isLoggingIn := False\<rparr>\<rparr>)
    \<and> session (store (snd (login mail password w))) = Some s
    \<and> user (store (snd (login mail password w))) = user (store w)
    \<and> (user (store w) = None \<longrightarrow> user (store (snd (login mail password w))) = None)
    \<and> alerts (snd (login mail password w)) = alerts w"
proof -
  have "fetchUserProfile (backend w) (uid u) = None"
    using assms(5) by (rule fetchUserProfile_absent)
  with assms(1-4) have "login mail password w =
      (True, w\<lparr>backend := (backend w)\<lparr>auth_session := Some s\<rparr>,
               store := (store w)\<lparr>session := Some s, isLoggingIn := False\<rparr>\<rparr>)"
    by (rule login_profile_not_found)
  then show ?thesis by simp
qed

theorem login_without_profile_succeeds_witness:
  "fst (login '' Alice@Example.com '' ''secret'' (mounted server)) = True
   \<and> session (store (snd (login '' Alice@Example.com '' ''secret'' (mounted server))))
       = Some alice_session
   \<and> user (store (snd (login '' Alice@Example.com '' ''secret'' (mounted server)))) = None
   \<and> alerts (snd (login '' Alice@Example.com '' ''secret'' (mounted server))) = []"
proof -
  let ?r = "\<lparr>data_session = Some alice_session, data_user = Some alice, signin_error = None\<rparr>"
  let ?w = "mounted server"
  have n: "trim (toLowerCase '' Alice@Example.com '') = ''alice@example.com''"
    by code_simp
  have h1: "credentials (backend ?w) (trim (toLowerCase '' Alice@Example.com '')) ''secret''
      = Fulfilled ?r"
    unfolding n by (simp add: mounted_def server_def)
  have h2: "signin_error ?r = None" and h3: "data_session ?r = Some alice_session"
    and h4: "data_user ?r = Some alice"
    by simp_all
  have h5: "Some (uid alice) \<notin> set (map user_id (employees (backend ?w)))"
    by (simp add: mounted_def server_def)
  have h6: "user (store ?w) = None"
    by (simp add: mounted_def initial_state_def)
  from login_without_profile_succeeds [OF h1 h2 h3 h4 h5] h6
  show ?thesis by (simp add: mounted_def initial_state_def)
qed

text \<open>
  Claim C1 says that a login with valid credentials for a user whose profile is
  deactivated fails with an account-disabled message and retains no session. The code
  has the branch for it, but never takes it: \<open>fetchUserProfile\<close> drops deactivated rows
  (\<open>fetchUserProfile_active\<close>), so \<open>login\<close> sees the user as one without a profile.
  What the code does: such a login returns success, stores the session, shows no alert,
  and the backend keeps the session, so a following \<open>getSession\<close> yields it.
\<close>

theorem login_deactivated_profile_keeps_session:
  assumes "credentials (backend w) (trim (toLowerCase mail)) password = Fulfilled r"
    and "signin_error r = None" and "data_session r = Some s" and "data_user r = Some u"
    and "filter (\<lambda>p. user_id p = Some (uid u)) (employees (backend w)) = [p]"
    and "is_active p = False"
  shows "login mail password w =
      (True, w\<lparr>backend := (backend w)\<lparr>auth_session := Some s\<rparr>,
               store := (store w)\<lparr>session := Some s, isLoggingIn := False\<rparr>\<rparr>)
    \<and> session (store (snd (login mail password w))) = Some s
    \<and> getSession (backend (snd (login mail password w))) =
        (case getSession_fault (backend w) of
           Exception e \<Rightarrow> Rejected e
         | ErrorResult e \<Rightarrow> Fulfilled \<lparr>current_session = None, session_error = Some e\<rparr>
         | NoFault \<Rightarrow> Fulfilled \<lparr>current_session = Some s, session_error = None\<rparr>)
    \<and> alerts (snd (login mail password w)) = alerts w"
proof -
  have "fetchUserProfile (backend w) (uid u) = None"
    using assms(5,6) by (rule fetchUserProfile_deactivated)
  with assms(1-4) have "login mail password w =
      (True, w\<lparr>backend := (backend w)\<lparr>auth_session := Some s\<rparr>,
               store := (store w)\<lparr>session := Some s, isLoggingIn := False\<rparr>\<rparr>)"
    by (rule login_profile_not_found)
  then show ?thesis by (simp add: getSession_def split: fault.splits)
qed

theorem login_deactivated_profile_keeps_session_witness:
  "fst (login ''alice@example.com'' ''secret'' (mounted (server\<lparr>employees := [alice_deactivated]\<rparr>)))
     = True
   \<and> session (store (snd (login ''alice@example.com'' ''secret''
        (mounted (server\<lparr>employees := [alice_deactivated]\<rparr>))))) = Some alice_session
   \<and> getSession (backend (snd (login ''alice@example.com'' ''secret''
        (mounted (server\<lparr>employees := [alice_deactivated]\<rparr>)))))
       = Fulfilled \<lparr>current_session = Some alice_session, session_error = None\<rparr>
   \<and> alerts (snd (login ''alice@example.com'' ''secret''
        (mounted (server\<lparr>employees := [alice_deactivated]\<rparr>)))) = []"
proof -
  let ?r = "\<lparr>data_session = Some alice_session, data_user = Some alice, signin_error = None\<rparr>"
  let ?w = "mounted (server\<lparr>employees := [alice_deactivated]\<rparr>)"
  have n: "trim (toLowerCase ''alice@example.com'') = ''alice@example.com''"
    by code_simp
  have h1: "credentials (backend ?w) (trim (toLowerCase ''alice@example.com'')) ''secret''
      = Fulfilled ?r"
    unfolding n by (simp add: mounted_def server_def)
  have h5: "filter (\<lambda>p. user_id p = Some (uid alice)) (employees (backend ?w)) = [alice_deactivated]"
    by (simp add: mounted_def server_def alice_deactivated_def alice_profile_def alice_def)
  have h6: "is_active alice_deactivated = False"
    by (simp add: alice_deactivated_def)
  have h7: "getSession_fault (backend ?w) = NoFault"
    by (simp add: mounted_def server_def)
  have h2: "signin_error ?r = None" and h3: "data_session ?r = Some alice_session"
    and h4: "data_user ?r = Some alice"
    by simp_all
  note t = login_deactivated_profile_keeps_session [OF h1 h2 h3 h4 h5 h6]
  have c: "login ''alice@example.com'' ''secret'' ?w =
      (True, ?w\<lparr>backend := (backend ?w)\<lparr>auth_session := Some alice_session\<rparr>,
               store := (store ?w)\<lparr>session := Some alice_session, isLoggingIn := False\<rparr>\<rparr>)"
    using t by simp
  have g: "getSession (backend (snd (login ''alice@example.com'' ''secret'' ?w)))
      = Fulfilled \<lparr>current_session = Some alice_session, session_error = None\<rparr>"
    using t [THEN conjunct2, THEN conjunct2, THEN conjunct1] by (simp only: h7 fault.case)
  show ?thesis
    unfolding g by (simp add: c) (simp add: mounted_def)
qed

subsection \<open>Completing the profile\<close>

text \<open>
  Claim C6. When no row of the departments table has the given department name,
  \<open>completeEmployeeProfile\<close> returns failure and leaves the whole world as it was: the
  employees table gets no row, because the operation returns before the insert. This
  holds whether or not the backend can answer the department query.
\<close>

theorem completeEmployeeProfile_unknown_department:
  assumes "departmentName \<notin> set (map dept_name (departments_table (backend w)))"
  shows "completeEmployeeProfile userId fullName employeeNumber departmentName phoneNumber
           companyName position' email' w = (False, w)"
proof -
  have "filter (\<lambda>d. dept_name d = departmentName) (departments_table (backend w)) = []"
    using assms by (fastforce simp: filter_empty_conv image_iff)
  then show ?thesis
    by (simp add: completeEmployeeProfile_def select_single_def single_def
          split: fault.splits)
qed

theorem completeEmployeeProfile_unknown_department_witness:
  "completeEmployeeProfile ''u1'' ''Alice'' ''E-001'' ''Quality'' None None None None
     (onboarding (server\<lparr>auth_session := Some alice_session\<rparr>))
   = (False, onboarding (server\<lparr>auth_session := Some alice_session\<rparr>))
   \<and> employees (backend (snd (completeEmployeeProfile ''u1'' ''Alice'' ''E-001'' ''Quality''
        None None None None (onboarding (server\<lparr>auth_session := Some alice_session\<rparr>))))) = []"
proof -
  let ?w = "onboarding (server\<lparr>auth_session := Some alice_session\<rparr>)"
  have h: "''Quality'' \<notin> set (map dept_name (departments_table (backend ?w)))"
    by (simp add: onboarding_def server_def)
  from completeEmployeeProfile_unknown_department [OF h]
  show ?thesis by (simp add: onboarding_def server_def)
qed

text \<open>
  Claim C7 says that a successful \<open>completeEmployeeProfile\<close> has stored the new profile
  in the store. The code stores the profile only when the reload yields one
  (\<^verbatim>\<open>if (userProfile) setUser(userProfile)\<close>) and returns success either way. Here the row
  is inserted, the reload is answered with an error, and the call returns success with
  the store's profile still empty.
\<close>

theorem completeEmployeeProfile_reload_fails_counterexample:
  "fst (completeEmployeeProfile ''u1'' ''Alice'' ''E-001'' ''Warehouse'' None None None None
          (onboarding (server\<lparr>auth_session := Some alice_session,
             employees_select_fault := ErrorResult offline\<rparr>))) = True
   \<and> user (store (snd (completeEmployeeProfile ''u1'' ''Alice'' ''E-001'' ''Warehouse'' None None
          None None (onboarding (server\<lparr>auth_session := Some alice_session,
             employees_select_fault := ErrorResult offline\<rparr>))))) = None"
  by (simp add: completeEmployeeProfile_def select_single_def single_def insert_employee_def
        fetchUserProfile_def new_employee_def or_null_def or_default_def
        onboarding_def server_def initial_state_def)

text \<open>
  Claim C7, amended. Whenever \<open>completeEmployeeProfile\<close> returns success, exactly one
  department has the given name, the backend holds the new row (with that department's
  identifier, the given fields, and the identifier and creation time the server
  generates), and the profile has been fetched again from the backend after the insert:
  when this reload yields a profile, that profile is the stored profile, and when it
  yields none, the stored profile is left as it was.
\<close>

theorem completeEmployeeProfile_success:
  assumes "completeEmployeeProfile userId fullName employeeNumber departmentName phoneNumber
             companyName position' email' w = (True, w')"
  shows "\<exists>d. filter (\<lambda>d. dept_name d = departmentName) (departments_table (backend w)) = [d]
    \<and> backend w' = (backend w)\<lparr>employees := employees (backend w) @
         [(new_employee userId fullName employeeNumber (dept_id d) departmentName phoneNumber
             companyName position' email')
            \<lparr>profile_id := gen_random_uuid (backend w), created_at := Some (now (backend w))\<rparr>]\<rparr>
    \<and> store w' = (store w)\<lparr>user :=
         (case fetchUserProfile (backend w') userId of
            Some userProfile \<Rightarrow> Some userProfile
          | None \<Rightarrow> user (store w))\<rparr>
    \<and> alerts w' = alerts w"
proof -
  let ?q = "select_single (departments_select_fault (backend w)) (departments_table (backend w))
             (\<lambda>d. dept_name d = departmentName)"
  from assms obtain r d where q: "?q = Fulfilled r" "error r = None" "data r = Some d"
    by (auto simp: completeEmployeeProfile_def split: promise.splits option.splits)
  then have f: "filter (\<lambda>d. dept_name d = departmentName) (departments_table (backend w)) = [d]"
    by (auto simp: select_single_def single_data_Some split: fault.splits)
  let ?row = "new_employee userId fullName employeeNumber (dept_id d) departmentName phoneNumber
             companyName position' email'"
  from assms q obtain b where i: "insert_employee (backend w) ?row = (Fulfilled None, b)"
    and w': "w' = (case fetchUserProfile b userId of
                Some userProfile \<Rightarrow> setUser (Some userProfile) (w\<lparr>backend := b\<rparr>)
              | None \<Rightarrow> w\<lparr>backend := b\<rparr>)"
    by (auto simp: completeEmployeeProfile_def split: prod.splits promise.splits option.splits)
  from i have b: "b = (backend w)\<lparr>employees := employees (backend w) @
         [?row\<lparr>profile_id := gen_random_uuid (backend w), created_at := Some (now (backend w))\<rparr>]\<rparr>"
    by (auto simp: insert_employee_def split: fault.splits if_splits)
  from w' have bw: "backend w' = b"
    by (simp add: setUser_def split: option.splits)
  from w' have st: "store w' = (store w)\<lparr>user :=
         (case fetchUserProfile b userId of
            Some userProfile \<Rightarrow> Some userProfile
          | None \<Rightarrow> user (store w))\<rparr>" and al: "alerts w' = alerts w"
    by (simp_all add: setUser_def split: option.splits)
  from f b bw st al show ?thesis by simp
qed

theorem completeEmployeeProfile_success_witness:
  "fst (completeEmployeeProfile ''u1'' ''Alice'' ''E-001'' ''Warehouse'' None (Some '''') None
          (Some ''alice@example.com'') (onboarding (server\<lparr>auth_session := Some alice_session\<rparr>)))
     = True
   \<and> user (store (snd (completeEmployeeProfile ''u1'' ''Alice'' ''E-001'' ''Warehouse'' None
          (Some '''') None (Some ''alice@example.com'')
          (onboarding (server\<lparr>auth_session := Some alice_session\<rparr>)))))
     = Some alice_new_row
   \<and> employees (backend (snd (completeEmployeeProfile ''u1'' ''Alice'' ''E-001'' ''Warehouse'' None
          (Some '''') None (Some ''alice@example.com'')
          (onboarding (server\<lparr>auth_session := Some alice_session\<rparr>)))))
     = [alice_new_row]"
proof -
  let ?w = "onboarding (server\<lparr>auth_session := Some alice_session\<rparr>)"
  let ?c = "completeEmployeeProfile ''u1'' ''Alice'' ''E-001'' ''Warehouse'' None (Some '''') None
          (Some ''alice@example.com'') ?w"
  have t: "fst ?c = True"
    by (simp add: completeEmployeeProfile_def select_single_def single_def insert_employee_def
          fetchUserProfile_def new_employee_def or_null_def or_default_def
          onboarding_def server_def)
  then have h: "?c = (True, snd ?c)"
    by (simp only: prod_eq_iff fst_conv snd_conv simp_thms)
  from completeEmployeeProfile_success [OF h] obtain d where
    f: "filter (\<lambda>d. dept_name d = ''Warehouse'') (departments_table (backend ?w)) = [d]"
    and b: "backend (snd ?c) = (backend ?w)\<lparr>employees := employees (backend ?w) @
         [(new_employee ''u1'' ''Alice'' ''E-001'' (dept_id d) ''Warehouse'' None (Some '''') None
             (Some ''alice@example.com''))
            \<lparr>profile_id := gen_random_uuid (backend ?w), created_at := Some (now (backend ?w))\<rparr>]\<rparr>"
    and s: "store (snd ?c) = (store ?w)\<lparr>user :=
         (case fetchUserProfile (backend (snd ?c)) ''u1'' of
            Some userProfile \<Rightarrow> Some userProfile
          | None \<Rightarrow> user (store ?w))\<rparr>"
    by blast
  from f have d: "d = \<lparr>dept_id = ''d1'', dept_name = ''Warehouse''\<rparr>"
    by (simp add: onboarding_def server_def)
  have e: "employees (backend (snd ?c)) = [alice_new_row]"
    unfolding b d
    by (simp add: new_employee_def or_null_def or_default_def onboarding_def server_def
          alice_new_row_def)
  have n: "employees_select_fault (backend (snd ?c)) = NoFault"
    unfolding b by (simp add: onboarding_def server_def)
  have g: "fetchUserProfile (backend (snd ?c)) ''u1'' = Some alice_new_row"
    unfolding fetchUserProfile_def e n
    by (simp add: select_single_def single_def alice_new_row_def)
  have u: "user (store (snd ?c)) = Some alice_new_row"
    unfolding s g by simp
  from t u e show ?thesis by simp
qed

subsection \<open>Logout\<close>

text \<open>
  Claim C4 says that \<open>logout\<close> clears the stored session and profile unconditionally
  and that \<open>getSession\<close> yields nothing afterwards. The two setters are inside the
  \<^verbatim>\<open>try\<close> block, after the \<^verbatim>\<open>await\<close>: when \<open>signOut\<close> throws, the \<^verbatim>\<open>catch\<close> block
  shows an alert, the store keeps its session and profile, and the backend keeps its
  session.
\<close>

theorem logout_signOut_throws_counterexample:
  "session (store (logout (signed_in (server\<lparr>auth_session := Some alice_session,
      signOut_fault := Exception offline\<rparr>)))) = Some alice_session
   \<and> user (store (logout (signed_in (server\<lparr>auth_session := Some alice_session,
      signOut_fault := Exception offline\<rparr>)))) = Some alice_profile
   \<and> getSession (backend (logout (signed_in (server\<lparr>auth_session := Some alice_session,
      signOut_fault := Exception offline\<rparr>))))
       = Fulfilled \<lparr>current_session = Some alice_session, session_error = None\<rparr>
   \<and> alerts (logout (signed_in (server\<lparr>auth_session := Some alice_session,
      signOut_fault := Exception offline\<rparr>))) = [(''Logout Failed'', ''Network request failed'')]"
  by (simp add: logout_def signOut_def alert_def getSession_def signed_in_def server_def
        offline_def)

text \<open>
  Claim C4, amended. \<open>logout\<close> requests the invalidation of the backend session. When
  the request does not throw, it clears the stored session and the stored profile,
  whatever they were and whatever the request answered; when moreover the request
  succeeded, the backend has no session and a following \<open>getSession\<close> that is answered
  yields nothing. When the request throws, \<open>logout\<close> shows a logout-failed alert and
  changes nothing else.
\<close>

theorem logout_outcomes:
  "(signOut_fault (backend w) = NoFault \<longrightarrow>
      logout w = w\<lparr>backend := (backend w)\<lparr>auth_session := None\<rparr>,
                   store := (store w)\<lparr>user := None, session := None\<rparr>\<rparr>
      \<and> (getSession_fault (backend w) = NoFault \<longrightarrow>
           getSession (backend (logout w))
             = Fulfilled \<lparr>current_session = None, session_error = None\<rparr>))
   \<and> (signOut_fault (backend w) = ErrorResult e \<longrightarrow>
      logout w = w\<lparr>store := (store w)\<lparr>user := None, session := None\<rparr>\<rparr>)
   \<and> (signOut_fault (backend w) = Exception e \<longrightarrow>
      logout w = w\<lparr>alerts := alerts w @ [(''Logout Failed'', message e)]\<rparr>)"
  by (simp add: logout_def signOut_def setUser_def setSession_def alert_def getSession_def)

theorem logout_outcomes_witness:
  "store (logout (signed_in (server\<lparr>auth_session := Some alice_session\<rparr>)))
     = (store (signed_in server))\<lparr>user := None, session := None\<rparr>
   \<and> getSession (backend (logout (signed_in (server\<lparr>auth_session := Some alice_session\<rparr>))))
     = Fulfilled \<lparr>current_session = None, session_error = None\<rparr>
   \<and> store (logout (signed_in (server\<lparr>auth_session := Some alice_session,
        signOut_fault := ErrorResult offline\<rparr>)))
     = (store (signed_in server))\<lparr>user := None, session := None\<rparr>
   \<and> logout (signed_in (server\<lparr>auth_session := Some alice_session,
        signOut_fault := Exception offline\<rparr>))
     = (signed_in (server\<lparr>auth_session := Some alice_session,
        signOut_fault := Exception offline\<rparr>))\<lparr>alerts := [(''Logout Failed'', message offline)]\<rparr>"
proof -
  let ?w1 = "signed_in (server\<lparr>auth_session := Some alice_session\<rparr>)"
  let ?w2 = "signed_in (server\<lparr>auth_session := Some alice_session,
        signOut_fault := ErrorResult offline\<rparr>)"
  let ?w3 = "signed_in (server\<lparr>auth_session := Some alice_session,
        signOut_fault := Exception offline\<rparr>)"
  have h1: "signOut_fault (backend ?w1) = NoFault" "getSession_fault (backend ?w1) = NoFault"
    by (simp_all add: signed_in_def server_def)
  have h2: "signOut_fault (backend ?w2) = ErrorResult offline"
    by (simp add: signed_in_def server_def)
  have h3: "signOut_fault (backend ?w3) = Exception offline"
    by (simp add: signed_in_def server_def)
  have c1: "logout ?w1 = ?w1\<lparr>backend := (backend ?w1)\<lparr>auth_session := None\<rparr>,
                   store := (store ?w1)\<lparr>user := None, session := None\<rparr>\<rparr>"
    and g1: "getSession (backend (logout ?w1))
        = Fulfilled \<lparr>current_session = None, session_error = None\<rparr>"
    using logout_outcomes [of ?w1] h1 by blast+
  have c2: "logout ?w2 = ?w2\<lparr>store := (store ?w2)\<lparr>user := None, session := None\<rparr>\<rparr>"
    using logout_outcomes [of ?w2 offline] h2 by blast
  have c3: "logout ?w3 = ?w3\<lparr>alerts := alerts ?w3 @ [(''Logout Failed'', message offline)]\<rparr>"
    using logout_outcomes [of ?w3 offline] h3 by blast
  show ?thesis
    unfolding g1 by (simp add: c1 c2 c3) (simp add: signed_in_def)
qed

subsection \<open>Deactivated profiles\<close>

text \<open>
  A profile that \<open>login\<close>, \<open>initializeAuth\<close>, \<open>completeEmployeeProfile\<close> or the
  session-change callback writes to the store comes from \<open>fetchUserProfile\<close>, so it
  is active: after each of them the stored profile is the one stored before or an active
  one.
\<close>

lemma login_stored_profile_active:
  "user (store (snd (login mail password w))) = Some q \<Longrightarrow>
   user (store w) = Some q \<or> is_active q"
  by (auto simp: login_def Let_def setIsLoggingIn_def setSession_def setUser_def alert_def
        signInWithPassword_def fetchUserProfile_auth_session
        split: prod.splits promise.splits option.splits if_splits
        dest: fetchUserProfile_active)

lemma initializeAuth_stored_profile_active:
  "user (store (initializeAuth w)) = Some q \<Longrightarrow> user (store w) = Some q \<or> is_active q"
  by (auto simp: initializeAuth_unfold loadDepartments_def setDepartments_def setIsLoading_def
        setSession_def setUser_def
        split: promise.splits option.splits dest: fetchUserProfile_active)

lemma completeEmployeeProfile_stored_profile_active:
  "user (store (snd (completeEmployeeProfile userId fullName employeeNumber departmentName
      phoneNumber companyName position' email' w))) = Some q \<Longrightarrow>
   user (store w) = Some q \<or> is_active q"
  by (auto simp: completeEmployeeProfile_def setUser_def
        split: prod.splits promise.splits option.splits dest: fetchUserProfile_active)

lemma onAuthStateChange_stored_profile_active:
  "user (store (onAuthStateChange event newSession w)) = Some q \<Longrightarrow>
   user (store w) = Some q \<or> is_active q"
  by (auto simp: onAuthStateChange_def setSession_def setUser_def
        split: option.splits if_splits dest: fetchUserProfile_active)

text \<open>
  Claim C2 says that no operation, \<open>refreshUser\<close> among them, leaves the store with a
  session and a deactivated profile. \<open>refreshUser\<close> does: its query has no filter on
  \<^verbatim>\<open>is_active\<close> and it does not look at the flag of the row it gets. When the backend
  has a session and the one row of the session's user is deactivated, \<open>refreshUser\<close>
  returns normally with that session and that deactivated profile in the store, and the
  backend session is still there.
\<close>

theorem refreshUser_stores_deactivated_profile:
  assumes "getSession (backend w) = Fulfilled resp" and "current_session resp = Some cs"
    and "employees_select_fault (backend w) = NoFault"
    and "filter (\<lambda>p. user_id p = Some (uid (session_user cs))) (employees (backend w)) = [p]"
    and "is_active p = False"
  shows "refreshUser w = (Inr (), w\<lparr>store := (store w)\<lparr>user := Some p, session := Some cs\<rparr>\<rparr>)
    \<and> session (store (snd (refreshUser w))) = Some cs
    \<and> user (store (snd (refreshUser w))) = Some p
    \<and> backend (snd (refreshUser w)) = backend w"
  using assms
  by (simp add: refreshUser_def select_single_def single_def setUser_def setSession_def)

theorem refreshUser_stores_deactivated_profile_witness:
  "fst (refreshUser (signed_in (server\<lparr>auth_session := Some alice_session,
      employees := [alice_deactivated]\<rparr>))) = Inr ()
   \<and> session (store (snd (refreshUser (signed_in (server\<lparr>auth_session := Some alice_session,
      employees := [alice_deactivated]\<rparr>))))) = Some alice_session
   \<and> user (store (snd (refreshUser (signed_in (server\<lparr>auth_session := Some alice_session,
      employees := [alice_deactivated]\<rparr>))))) = Some alice_deactivated
   \<and> is_active alice_deactivated = False
   \<and> auth_session (backend (snd (refreshUser (signed_in (server\<lparr>auth_session := Some alice_session,
      employees := [alice_deactivated]\<rparr>))))) = Some alice_session"
proof -
  let ?w = "signed_in (server\<lparr>auth_session := Some alice_session,
      employees := [alice_deactivated]\<rparr>)"
  let ?resp = "\<lparr>current_session = Some alice_session, session_error = None\<rparr>"
  have h1: "getSession (backend ?w) = Fulfilled ?resp"
    by (simp add: getSession_def signed_in_def server_def)
  have h1': "current_session ?resp = Some alice_session"
    by simp
  have h2: "employees_select_fault (backend ?w) = NoFault"
    by (simp add: signed_in_def server_def)
  have h3: "filter (\<lambda>p. user_id p = Some (uid (session_user alice_session))) (employees (backend ?w))
      = [alice_deactivated]"
    by (simp add: signed_in_def server_def alice_deactivated_def alice_profile_def
          alice_session_def alice_def)
  have h4: "is_active alice_deactivated = False"
    by (simp add: alice_deactivated_def)
  from refreshUser_stores_deactivated_profile [OF h1 h1' h2 h3 h4] h4
  show ?thesis by (simp add: signed_in_def)
qed

subsection \<open>Refresh without a profile\<close>



end
